theory Spec2Isabelle
  imports Main "HOL-Library.Sublist"
begin

section \<open>Python values used by the server\<close>

text \<open>
  A Python \<open>str\<close> is a sequence of Unicode code points: \<open>len\<close> counts code points and a
  slice cuts between them. It is modelled as a list of code point numbers. \<open>U\<close> turns an
  ASCII literal into such a list.
\<close>

type_synonym ustr = "nat list"

definition U :: "string \<Rightarrow> ustr" where
  "U s = map of_char s"

text \<open>\<open>str(n)\<close> for a non-negative integer, and for any integer.\<close>

fun dec :: "nat \<Rightarrow> ustr" where
  "dec n = (if n < 10 then [48 + n] else dec (n div 10) @ [48 + n mod 10])"

declare dec.simps [simp del]

definition str_int :: "int \<Rightarrow> ustr" where
  "str_int i = (if i < 0 then 45 # dec (nat (- i)) else dec (nat i))"

text \<open>
  The values a JSON payload without fractional numbers holds: \<open>None\<close>, booleans,
  integers (unbounded, as in Python) and strings.
\<close>

datatype pyval = PNone | PBool bool | PInt int | PStr ustr

fun py_str :: "pyval \<Rightarrow> ustr" where
  "py_str PNone = U ''None''"
| "py_str (PBool b) = (if b then U ''True'' else U ''False'')"
| "py_str (PInt i) = str_int i"
| "py_str (PStr s) = s"

text \<open>
  The exceptions (all subclasses of \<open>Exception\<close>) by class and \<open>str(e)\<close>.
  \<open>OtherError\<close> stands for every class that is none of the named ones.
\<close>

datatype exn_class =
  ValueError | TypeError | KeyError | OverflowError | AttributeError | ImportError | OtherError

datatype exn = Exn exn_class ustr

fun exn_str :: "exn \<Rightarrow> ustr" where
  "exn_str (Exn c m) = m"

fun exn_cls :: "exn \<Rightarrow> exn_class" where
  "exn_cls (Exn c m) = c"

subsection \<open>Floats\<close>

text \<open>
  A Python float is an IEEE double: \<open>Finite s m e\<close> is \<open>(-1)^s * m * 2^e\<close> exactly
  (\<open>s\<close> the sign bit, so that \<open>-0.0\<close> is \<open>Finite True 0 0\<close>), \<open>Infinity s\<close> the two
  infinities and \<open>NaN\<close> not-a-number.
\<close>

datatype pyfloat = Finite bool nat int | Infinity bool | NaN

text \<open>\<open>p / q\<close> rounded to the nearest integer, ties to even (\<open>q > 0\<close>).\<close>

definition round_half_even :: "nat \<Rightarrow> nat \<Rightarrow> nat" where
  "round_half_even p q =
     (let d = p div q; r = p mod q
      in if 2 * r > q \<or> (2 * r = q \<and> odd d) then d + 1 else d)"

fun bitlen :: "nat \<Rightarrow> nat" where
  "bitlen n = (if n = 0 then 0 else Suc (bitlen (n div 2)))"

declare bitlen.simps [simp del]

text \<open>
  \<open>float(n)\<close> for an integer magnitude: the nearest double (53 significant bits, ties to
  even); \<open>None\<close> is the \<open>OverflowError\<close> Python raises when that is \<open>2^1024\<close> or more.
\<close>

definition float_of_nat :: "nat \<Rightarrow> (nat \<times> int) option" where
  "float_of_nat n =
     (if n < 2 ^ 53 then Some (n, 0)
      else
        let e = bitlen n - 53; m = round_half_even n (2 ^ e)
        in if m * 2 ^ e \<ge> 2 ^ 1024 then None else Some (m, int e))"

text \<open>
  \<open>float(v)\<close>. Converting a string is Python's own parser, which this repository does not
  contain: it is the parameter \<open>str_to_float\<close> (\<open>None\<close> where Python raises
  \<open>ValueError\<close>). The result is the float or the class of the exception raised.
\<close>

fun py_float :: "(ustr \<Rightarrow> pyfloat option) \<Rightarrow> pyval \<Rightarrow> exn_class + pyfloat" where
  "py_float str_to_float PNone = Inl TypeError"
| "py_float str_to_float (PBool b) = Inr (Finite False (if b then 1 else 0) 0)"
| "py_float str_to_float (PInt i) =
     (case float_of_nat (nat \<bar>i\<bar>) of
        None \<Rightarrow> Inl OverflowError
      | Some (m, e) \<Rightarrow> Inr (Finite (i < 0) m e))"
| "py_float str_to_float (PStr s) =
     (case str_to_float s of None \<Rightarrow> Inl ValueError | Some f \<Rightarrow> Inr f)"

text \<open>
  \<open>f"{x:.3f}"\<close>: the exact value of the double, rounded to three decimals (ties to even),
  the sign printed whenever the sign bit is set.
\<close>

definition pad3 :: "nat \<Rightarrow> ustr" where
  "pad3 n = [48 + n div 100 mod 10, 48 + n div 10 mod 10, 48 + n mod 10]"

definition thousandths :: "nat \<Rightarrow> int \<Rightarrow> nat" where
  "thousandths m e =
     (if e \<ge> 0 then m * 1000 * 2 ^ nat e else round_half_even (m * 1000) (2 ^ nat (- e)))"

fun format_3f :: "pyfloat \<Rightarrow> ustr" where
  "format_3f NaN = U ''nan''"
| "format_3f (Infinity s) = (if s then U ''-inf'' else U ''inf'')"
| "format_3f (Finite s m e) =
     (let n = thousandths m e
      in (if s then U ''-'' else []) @ dec (n div 1000) @ U ''.'' @ pad3 (n mod 1000))"

subsection \<open>The two formatting helpers (server.py, test\_connection.py)\<close>

text \<open>
  A score as the collaborator's result object holds it: a float, or any other value.
\<close>

datatype score = Float pyfloat | Val pyval

text \<open>
  \<open>safe_format_score\<close>: \<open>None\<close> gives \<open>N/A\<close>; otherwise \<open>float(score)\<close> is formatted
  with three decimals, and a \<open>ValueError\<close> or \<open>TypeError\<close> of the conversion gives
  \<open>str(score)\<close>. Any other exception of the conversion leaves the function.
\<close>

fun conversion_error :: "exn_class \<Rightarrow> exn" where
  "conversion_error c =
     (if c = OverflowError then Exn c (U ''int too large to convert to float'') else Exn c [])"

fun safe_format_score :: "(ustr \<Rightarrow> pyfloat option) \<Rightarrow> score \<Rightarrow> exn + ustr" where
  "safe_format_score str_to_float (Val PNone) = Inr (U ''N/A'')"
| "safe_format_score str_to_float (Float f) = Inr (format_3f f)"
| "safe_format_score str_to_float (Val v) =
     (case py_float str_to_float v of
        Inr f \<Rightarrow> Inr (format_3f f)
      | Inl c \<Rightarrow>
          if c = ValueError \<or> c = TypeError then Inr (py_str v) else Inl (conversion_error c))"

text \<open>
  \<open>safe_get_attr(obj, name, default)\<close> on a field that holds a string or is absent
  (or \<open>None\<close>).
\<close>

definition safe_get_attr :: "ustr option \<Rightarrow> ustr \<Rightarrow> ustr" where
  "safe_get_attr field dflt = (case field of None \<Rightarrow> dflt | Some v \<Rightarrow> v)"

subsection \<open>Strings: surrounding whitespace\<close>

text \<open>
  \<open>str.strip()\<close> removes the leading and trailing code points for which
  \<open>str.isspace()\<close> holds.
\<close>

definition is_space :: "nat \<Rightarrow> bool" where
  "is_space c \<longleftrightarrow>
     (9 \<le> c \<and> c \<le> 13) \<or> (28 \<le> c \<and> c \<le> 32) \<or> c = 133 \<or> c = 160 \<or> c = 5760 \<or>
     (8192 \<le> c \<and> c \<le> 8202) \<or> c = 8232 \<or> c = 8233 \<or> c = 8239 \<or> c = 8287 \<or> c = 12288"

definition strip :: "ustr \<Rightarrow> ustr" where
  "strip s = rev (dropWhile is_space (rev (dropWhile is_space s)))"

section \<open>The collaborator and the process environment\<close>

text \<open>
  A result object of the collaborator, read only through \<open>getattr(obj, name, None)\<close>:
  a field that is missing and a field that holds \<open>None\<close> are the same \<open>None\<close> here.
  Title, URL, publication date and text are strings when present; the score is any value.
\<close>

record result_item =
  r_title :: "ustr option"
  r_url :: "ustr option"
  r_score :: score
  r_published_date :: "ustr option"
  r_text :: "ustr option"

text \<open>
  The three operations of the collaborator, with the arguments the handlers pass:
  \<open>Search query num_results start_published_date type use_autoprompt\<close> (a keyword the
  handler does not pass is \<open>None\<close>), \<open>GetContents urls text\<close>, and
  \<open>FindSimilar url num_results\<close>.
\<close>

datatype request =
    Search pyval pyval "ustr option" "ustr option" "bool option"
  | GetContents "pyval list" bool
  | FindSimilar pyval pyval

text \<open>
  \<open>datetime.now()\<close>: the proleptic Gregorian ordinal of the date (\<open>toordinal()\<close>, day 1
  is 0001-01-01) and the time of day.
\<close>

record datetime =
  dt_ordinal :: int
  dt_seconds :: nat
  dt_microseconds :: nat

text \<open>
  A client of the collaborator answers a request with its result list or with the
  exception it raises. What a call reads from outside the program: the environment
  variables, the clock, the constructor \<open>Exa(api_key)\<close> of the collaborator's client
  (the client, or the exception the constructor raises), and two facts of the Python
  runtime: the float parser, and whether the C library's
  \<open>strftime\<close> pads a year below 1000 to four digits.
\<close>

type_synonym client = "request \<Rightarrow> exn + result_item list"

record world =
  getenv :: "ustr \<Rightarrow> ustr option"
  now :: datetime
  new_exa :: "ustr option \<Rightarrow> exn + client"
  str_to_float :: "ustr \<Rightarrow> pyfloat option"
  pads_year :: bool

datatype text_content = TextContent ustr

fun content_text :: "text_content \<Rightarrow> ustr" where
  "content_text (TextContent t) = t"

type_synonym arguments = "ustr \<Rightarrow> pyval option"

text \<open>
  What running a piece of the server gives: the value returned or the exception raised,
  and the requests sent to the collaborator on the way, in order.
\<close>

type_synonym 'a outcome = "(exn + 'a) \<times> request list"

section \<open>server.py\<close>

definition get_exa_client :: "world \<Rightarrow> exn + client" where
  "get_exa_client w =
     (case getenv w (U ''EXA_API_KEY'') of
        None \<Rightarrow> Inl (Exn ValueError
          (U ''EXA_API_KEY environment variable is required. Get your key from https://exa.ai/''))
      | Some api_key \<Rightarrow>
          if api_key = [] then Inl (Exn ValueError
            (U ''EXA_API_KEY environment variable is required. Get your key from https://exa.ai/''))
          else new_exa w (Some api_key))"

text \<open>\<open>arguments[key]\<close> and \<open>arguments.get(key, default)\<close>.\<close>

definition subscript :: "arguments \<Rightarrow> string \<Rightarrow> exn + pyval" where
  "subscript arguments key =
     (case arguments (U key) of
        None \<Rightarrow> Inl (Exn KeyError ([39] @ U key @ [39]))
      | Some v \<Rightarrow> Inr v)"

definition get_default :: "arguments \<Rightarrow> string \<Rightarrow> pyval \<Rightarrow> pyval" where
  "get_default arguments key dflt = (case arguments (U key) of None \<Rightarrow> dflt | Some v \<Rightarrow> v)"

text \<open>
  The \<open>except Exception as e\<close> clause that closes each handler: an exception of the
  \<open>try\<close> block becomes one text block.
\<close>

definition except_exception :: "(exn \<Rightarrow> ustr) \<Rightarrow> text_content list outcome \<Rightarrow> text_content list outcome" where
  "except_exception error_msg r =
     (case r of
        (Inl e, calls) \<Rightarrow> (Inr [TextContent (error_msg e)], calls)
      | (Inr v, calls) \<Rightarrow> (Inr v, calls))"

subsection \<open>The numbered entries\<close>

text \<open>
  The loop \<open>for i, result in enumerate(results.results, 1)\<close>, which the four list
  handlers repeat word for word but for the label of the score line
  (\<open>Relevance\<close> or \<open>Similarity\<close>). \<open>entry\<close> is the text one iteration adds, given the
  formatted score.
\<close>

definition entry :: "ustr \<Rightarrow> nat \<Rightarrow> result_item \<Rightarrow> ustr \<Rightarrow> ustr" where
  "entry label i result formatted_score =
     U ''**'' @ dec i @ U ''. '' @ safe_get_attr (r_title result) (U ''No title'') @ U ''**'' @ [10] @
     [287, 376, 8220] @ U '' URL: '' @ safe_get_attr (r_url result) (U ''No URL'') @ [10] @
     [226, 173] @ U '' '' @ label @ U '' Score: '' @ formatted_score @ [10] @
     (case r_published_date result of
        None \<Rightarrow> []
      | Some pub_date \<Rightarrow>
          if pub_date = [] then []
          else [287, 376, 8220, 8230] @ U '' Published: '' @ pub_date @ [10]) @
     [10]"

fun entries :: "(ustr \<Rightarrow> pyfloat option) \<Rightarrow> ustr \<Rightarrow> nat \<Rightarrow> result_item list \<Rightarrow> exn + ustr" where
  "entries sf label i [] = Inr []"
| "entries sf label i (result # results) =
     (case safe_format_score sf (r_score result) of
        Inl e \<Rightarrow> Inl e
      | Inr s \<Rightarrow>
          (case entries sf label (Suc i) results of
             Inl e \<Rightarrow> Inl e
           | Inr rest \<Rightarrow> Inr (entry label i result s @ rest)))"

subsection \<open>Dates (the standard library's arithmetic)\<close>

definition days_before_month :: "nat list" where
  "days_before_month = [0, 0, 31, 59, 90, 120, 151, 181, 212, 243, 273, 304, 334]"

definition days_in_month :: "nat list" where
  "days_in_month = [0, 31, 28, 31, 30, 31, 30, 31, 31, 30, 31, 30, 31]"

text \<open>\<open>date.fromordinal(n)\<close> for \<open>1 \<le> n\<close>: year, month, day.\<close>

definition ord2ymd :: "nat \<Rightarrow> nat \<times> nat \<times> nat" where
  "ord2ymd ordinal =
     (let n = ordinal - 1;
          n400 = n div 146097; n = n mod 146097;
          n100 = n div 36524; n = n mod 36524;
          n4 = n div 1461; n = n mod 1461;
          n1 = n div 365; n = n mod 365;
          year = n400 * 400 + 1 + n100 * 100 + n4 * 4 + n1
      in if n1 = 4 \<or> n100 = 4 then (year - 1, 12, 31)
         else
           let leapyear = (n1 = 3 \<and> (n4 \<noteq> 24 \<or> n100 = 3));
               month = (n + 50) div 32;
               preceding = days_before_month ! month + (if month > 2 \<and> leapyear then 1 else 0)
           in if preceding > n
              then (year, month - 1,
                    n - (preceding - (days_in_month ! (month - 1) +
                           (if month - 1 = 2 \<and> leapyear then 1 else 0))) + 1)
              else (year, month, n - preceding + 1))"

definition pad2 :: "nat \<Rightarrow> ustr" where
  "pad2 n = [48 + n div 10 mod 10, 48 + n mod 10]"

text \<open>
  \<open>strftime("%Y-%m-%d")\<close> of the date with the given ordinal. A year from 1000 on has
  four digits; for a smaller one the C library decides whether zeros are put in front.
\<close>

definition strftime_ymd :: "bool \<Rightarrow> nat \<Rightarrow> ustr" where
  "strftime_ymd pads ordinal =
     (case ord2ymd ordinal of
        (y, m, d) \<Rightarrow>
          (if pads then replicate (4 - length (dec y)) 48 else []) @ dec y @
          U ''-'' @ pad2 m @ U ''-'' @ pad2 d)"

definition type_name :: "pyval \<Rightarrow> ustr" where
  "type_name v =
     (case v of PNone \<Rightarrow> U ''NoneType'' | PBool b \<Rightarrow> U ''bool'' | PInt i \<Rightarrow> U ''int''
      | PStr s \<Rightarrow> U ''str'')"

text \<open>\<open>timedelta(days=v)\<close>: the number of days, or the exception of the constructor.\<close>

definition timedelta_days :: "pyval \<Rightarrow> exn + int" where
  "timedelta_days v =
     (case v of
        PInt n \<Rightarrow>
          if \<bar>n\<bar> \<le> 999999999 then Inr n
          else if - (2 ^ 31) \<le> n \<and> n < 2 ^ 31
          then Inl (Exn OverflowError
                 (U ''days='' @ str_int n @ U ''; must have magnitude <= 999999999''))
          else Inl (Exn OverflowError (U ''Python int too large to convert to C int''))
      | PBool b \<Rightarrow> Inr (if b then 1 else 0)
      | _ \<Rightarrow> Inl (Exn TypeError
                 (U ''unsupported type for timedelta days component: '' @ type_name v)))"

text \<open>
  \<open>(end_date - timedelta(days=n)).strftime("%Y-%m-%d")\<close>: whole days leave the time of
  day as it is, so the date moves by \<open>n\<close> ordinals; a date before 0001-01-01 or after
  9999-12-31 is an \<open>OverflowError\<close>.
\<close>

definition start_date_str :: "world \<Rightarrow> int \<Rightarrow> exn + ustr" where
  "start_date_str w n =
     (let ordinal = dt_ordinal (now w) - n
      in if 1 \<le> ordinal \<and> ordinal \<le> 3652059
         then Inr (strftime_ymd (pads_year w) (nat ordinal))
         else Inl (Exn OverflowError (U ''date value out of range'')))"

subsection \<open>The five handlers\<close>

definition search_web_semantic_try ::
  "world \<Rightarrow> client \<Rightarrow> pyval \<Rightarrow> pyval \<Rightarrow> text_content list outcome" where
  "search_web_semantic_try w exa query num_results =
     (let req = Search query num_results None None (Some True)
      in case exa req of
           Inl e \<Rightarrow> (Inl e, [req])
         | Inr results \<Rightarrow>
             if results = []
             then (Inr [TextContent
                     (U ''No results found for query: '' @ [39] @ py_str query @ [39] @
                      U ''. Try a different search term or broader query.'')], [req])
             else
               (case entries (str_to_float w) (U ''Relevance'') 1 results of
                  Inl e \<Rightarrow> (Inl e, [req])
                | Inr body \<Rightarrow>
                    (Inr [TextContent
                       ([287, 376, 8221] @ U '' **Semantic Search Results for: '' @ [39] @
                        py_str query @ [39] @ U ''**'' @ [10, 10] @
                        U ''Found '' @ dec (length results) @ U '' relevant results:'' @ [10, 10] @
                        body)], [req])))"

definition search_web_semantic :: "world \<Rightarrow> client \<Rightarrow> arguments \<Rightarrow> text_content list outcome" where
  "search_web_semantic w exa arguments =
     (case subscript arguments ''query'' of
        Inl e \<Rightarrow> (Inl e, [])
      | Inr query \<Rightarrow>
          except_exception
            (\<lambda>e. U ''Web search failed: '' @ exn_str e @
                  U ''. Please check your query and try again.'')
            (search_web_semantic_try w exa query (get_default arguments ''num_results'' (PInt 5))))"

text \<open>The content section of the extraction handler, from the \<open>text\<close> field.\<close>

definition content_section :: "ustr option \<Rightarrow> ustr" where
  "content_section text_content =
     (case text_content of
        None \<Rightarrow> U ''**Content:** Unable to extract readable text from this page.''
      | Some raw \<Rightarrow>
          if raw = [] then U ''**Content:** Unable to extract readable text from this page.''
          else
            let text = strip raw
            in if length text > 3000
               then U ''**Content (first 3000 characters):**'' @ [10] @ take 3000 text @
                    U ''...'' @ [10, 10] @
                    U ''*[Content truncated - total length: '' @ dec (length text) @
                    U '' characters]*''
               else U ''**Content:**'' @ [10] @ text)"

definition extract_page_content_try ::
  "world \<Rightarrow> client \<Rightarrow> pyval \<Rightarrow> text_content list outcome" where
  "extract_page_content_try w exa url =
     (let req = GetContents [url] True
      in case exa req of
           Inl e \<Rightarrow> (Inl e, [req])
         | Inr results \<Rightarrow>
             (case results of
                [] \<Rightarrow>
                  (Inr [TextContent
                     (U ''Could not extract content from URL: '' @ py_str url @
                      U ''. The page might be inaccessible or require authentication.'')], [req])
              | content # _ \<Rightarrow>
                  let title = safe_get_attr (r_title content) (U ''No title available'')
                  in (Inr [TextContent
                        ([287, 376, 8220, 8222] @ U '' **Content Extracted from: '' @
                         safe_get_attr (r_url content) (py_str url) @ U ''**'' @ [10, 10] @
                         (if title \<noteq> U ''No title available''
                          then U ''**Title:** '' @ title @ [10, 10] else []) @
                         content_section (r_text content))], [req])))"

definition extract_page_content :: "world \<Rightarrow> client \<Rightarrow> arguments \<Rightarrow> text_content list outcome" where
  "extract_page_content w exa arguments =
     (case subscript arguments ''url'' of
        Inl e \<Rightarrow> (Inl e, [])
      | Inr url \<Rightarrow>
          except_exception
            (\<lambda>e. U ''Content extraction failed for '' @ py_str url @ U '': '' @ exn_str e @
                  U ''. The page might be blocked or require special access.'')
            (extract_page_content_try w exa url))"

definition find_similar_pages_try ::
  "world \<Rightarrow> client \<Rightarrow> pyval \<Rightarrow> pyval \<Rightarrow> text_content list outcome" where
  "find_similar_pages_try w exa url num_results =
     (let req = FindSimilar url num_results
      in case exa req of
           Inl e \<Rightarrow> (Inl e, [req])
         | Inr results \<Rightarrow>
             if results = []
             then (Inr [TextContent
                     (U ''No similar pages found for: '' @ py_str url @
                      U ''. Try a different URL or check if the URL is accessible.'')], [req])
             else
               (case entries (str_to_float w) (U ''Similarity'') 1 results of
                  Inl e \<Rightarrow> (Inl e, [req])
                | Inr body \<Rightarrow>
                    (Inr [TextContent
                       ([287, 376, 8221, 8212] @ U '' **Pages Similar to: '' @ py_str url @
                        U ''**'' @ [10, 10] @
                        U ''Found '' @ dec (length results) @ U '' similar pages:'' @ [10, 10] @
                        body)], [req])))"

definition find_similar_pages :: "world \<Rightarrow> client \<Rightarrow> arguments \<Rightarrow> text_content list outcome" where
  "find_similar_pages w exa arguments =
     (case subscript arguments ''url'' of
        Inl e \<Rightarrow> (Inl e, [])
      | Inr url \<Rightarrow>
          except_exception
            (\<lambda>e. U ''Similar pages search failed for '' @ py_str url @ U '': '' @ exn_str e @
                  U ''. Please verify the URL is valid and accessible.'')
            (find_similar_pages_try w exa url (get_default arguments ''num_results'' (PInt 5))))"

definition search_recent_content_try ::
  "world \<Rightarrow> client \<Rightarrow> pyval \<Rightarrow> pyval \<Rightarrow> pyval \<Rightarrow> text_content list outcome" where
  "search_recent_content_try w exa query days_back num_results =
     (case timedelta_days days_back of
        Inl e \<Rightarrow> (Inl e, [])
      | Inr n \<Rightarrow>
          (case start_date_str w n of
             Inl e \<Rightarrow> (Inl e, [])
           | Inr start_date \<Rightarrow>
               let req = Search query num_results (Some start_date) None (Some True)
               in (case exa req of
                    Inl e \<Rightarrow> (Inl e, [req])
                  | Inr results \<Rightarrow>
                      if results = []
                      then (Inr [TextContent
                              (U ''No recent content found for '' @ [39] @ py_str query @ [39] @
                               U '' in the last '' @ py_str days_back @
                               U '' days. Try a broader query or increase the time range.'')],
                            [req])
                      else
                        (case entries (str_to_float w) (U ''Relevance'') 1 results of
                           Inl e \<Rightarrow> (Inl e, [req])
                         | Inr body \<Rightarrow>
                             (Inr [TextContent
                                ([287, 376, 8226, 8217] @ U '' **Recent Content for: '' @ [39] @
                                 py_str query @ [39] @ U ''** (Last '' @ py_str days_back @
                                 U '' days)'' @ [10, 10] @
                                 U ''Found '' @ dec (length results) @ U '' recent results:'' @
                                 [10, 10] @ body)], [req])))))"

definition search_recent_content :: "world \<Rightarrow> client \<Rightarrow> arguments \<Rightarrow> text_content list outcome" where
  "search_recent_content w exa arguments =
     (case subscript arguments ''query'' of
        Inl e \<Rightarrow> (Inl e, [])
      | Inr query \<Rightarrow>
          except_exception
            (\<lambda>e. U ''Recent content search failed: '' @ exn_str e @
                  U ''. Please try a different query.'')
            (search_recent_content_try w exa query
               (get_default arguments ''days_back'' (PInt 7))
               (get_default arguments ''num_results'' (PInt 5))))"

definition search_by_example_text_try ::
  "world \<Rightarrow> client \<Rightarrow> ustr \<Rightarrow> pyval \<Rightarrow> text_content list outcome" where
  "search_by_example_text_try w exa text_arg num_results =
     (let req = Search (PStr text_arg) num_results None (Some (U ''neural'')) (Some False)
      in case exa req of
           Inl e \<Rightarrow> (Inl e, [req])
         | Inr results \<Rightarrow>
             if results = []
             then (Inr [TextContent
                     (U ''No similar content found for the provided text sample. Try a longer or more specific text example.'')],
                   [req])
             else
               let example_preview =
                     (if length text_arg > 200 then take 200 text_arg @ U ''...'' else text_arg)
               in (case entries (str_to_float w) (U ''Similarity'') 1 results of
                     Inl e \<Rightarrow> (Inl e, [req])
                   | Inr body \<Rightarrow>
                       (Inr [TextContent
                          ([287, 376, 8220] @ U '' **Content Similar to Example Text:**'' @
                           [10, 10] @
                           U ''**Example:** '' @ example_preview @ [10, 10] @
                           U ''Found '' @ dec (length results) @ U '' similar results:'' @
                           [10, 10] @ body)], [req])))"

text \<open>
  \<open>len(text)\<close> in the log line before the \<open>try\<close>: a value that is not a string has no
  length, and the \<open>TypeError\<close> leaves the handler.
\<close>

definition search_by_example_text :: "world \<Rightarrow> client \<Rightarrow> arguments \<Rightarrow> text_content list outcome" where
  "search_by_example_text w exa arguments =
     (case subscript arguments ''text'' of
        Inl e \<Rightarrow> (Inl e, [])
      | Inr (PStr text_arg) \<Rightarrow>
          except_exception
            (\<lambda>e. U ''Example text search failed: '' @ exn_str e @
                  U ''. Please try a different text sample.'')
            (search_by_example_text_try w exa text_arg
               (get_default arguments ''num_results'' (PInt 5)))
      | Inr v \<Rightarrow>
          (Inl (Exn TypeError
             (U ''object of type '' @ [39] @ type_name v @ [39] @ U '' has no len()'')), []))"

subsection \<open>The dispatcher\<close>

text \<open>
  \<open>handle_call_tool\<close>: the response and the requests sent to the collaborator. The client
  is made first; then the name selects the handler; a \<open>ValueError\<close> raised anywhere
  inside is reported as a configuration error, any other exception with the tool name.
\<close>

definition dispatch :: "world \<Rightarrow> client \<Rightarrow> ustr \<Rightarrow> arguments \<Rightarrow> text_content list outcome" where
  "dispatch w exa name arguments =
     (if name = U ''search_web_semantic'' then search_web_semantic w exa arguments
      else if name = U ''extract_page_content'' then extract_page_content w exa arguments
      else if name = U ''find_similar_pages'' then find_similar_pages w exa arguments
      else if name = U ''search_recent_content'' then search_recent_content w exa arguments
      else if name = U ''search_by_example_text'' then search_by_example_text w exa arguments
      else (Inr [TextContent (U ''Unknown tool: '' @ name)], []))"

definition handle_exception :: "ustr \<Rightarrow> exn \<Rightarrow> text_content list" where
  "handle_exception name e =
     (if exn_cls e = ValueError
      then [TextContent (U ''Configuration Error: '' @ exn_str e)]
      else [TextContent (U ''Error in '' @ name @ U '': '' @ exn_str e)])"

definition handle_call_tool ::
  "world \<Rightarrow> ustr \<Rightarrow> arguments \<Rightarrow> text_content list \<times> request list" where
  "handle_call_tool w name arguments =
     (case get_exa_client w of
        Inl e \<Rightarrow> (handle_exception name e, [])
      | Inr exa \<Rightarrow>
          (case dispatch w exa name arguments of
             (Inl e, calls) \<Rightarrow> (handle_exception name e, calls)
           | (Inr response, calls) \<Rightarrow> (response, calls)))"

text \<open>The five names \<open>handle_list_tools\<close> advertises, in its order.\<close>

definition tool_names :: "ustr list" where
  "tool_names =
     [U ''search_web_semantic'', U ''extract_page_content'', U ''find_similar_pages'',
      U ''search_recent_content'', U ''search_by_example_text'']"

section \<open>test\_connection.py\<close>

text \<open>
  Which of the two libraries \<open>import\<close> finds. Printing is left out: the checks are
  modelled by what they return.
\<close>

record installation =
  exa_py_installed :: bool
  mcp_installed :: bool

definition test_environment_setup :: "world \<Rightarrow> bool" where
  "test_environment_setup w =
     (case getenv w (U ''EXA_API_KEY'') of None \<Rightarrow> False | Some api_key \<Rightarrow> api_key \<noteq> [])"

definition test_exa_import :: "installation \<Rightarrow> bool" where
  "test_exa_import inst = exa_py_installed inst"

definition test_mcp_import :: "installation \<Rightarrow> bool" where
  "test_mcp_import inst = mcp_installed inst"

text \<open>
  Each of the four checks below runs inside \<open>try\<close> with \<open>except Exception\<close>: a failed
  import, an exception of the constructor, of the request or of the score formatting all
  end in the \<open>except\<close> clause, which returns \<open>False\<close> in the first check and \<open>True\<close> in
  the other three.
\<close>

definition test_exa_api_connection :: "installation \<Rightarrow> world \<Rightarrow> bool" where
  "test_exa_api_connection inst w =
     (if \<not> exa_py_installed inst then False
      else
        (case new_exa w (getenv w (U ''EXA_API_KEY'')) of
           Inl e \<Rightarrow> False
         | Inr exa \<Rightarrow>
             (case exa (Search (PStr (U ''test query'')) (PInt 1) None None None) of
                Inl e \<Rightarrow> False
              | Inr results \<Rightarrow>
                  (case results of
                     [] \<Rightarrow> False
                   | result # _ \<Rightarrow>
                       (case safe_format_score (str_to_float w) (r_score result) of
                          Inl e \<Rightarrow> False
                        | Inr s \<Rightarrow> True)))))"

definition test_content_extraction :: "installation \<Rightarrow> world \<Rightarrow> bool" where
  "test_content_extraction inst w =
     (if \<not> exa_py_installed inst then True
      else
        (case new_exa w (getenv w (U ''EXA_API_KEY'')) of
           Inl e \<Rightarrow> True
         | Inr exa \<Rightarrow>
             (case exa (GetContents [PStr (U ''https://example.com'')] True) of
                Inl e \<Rightarrow> True
              | Inr results \<Rightarrow> (case results of [] \<Rightarrow> True | content # _ \<Rightarrow> True))))"

definition test_similarity_search :: "installation \<Rightarrow> world \<Rightarrow> bool" where
  "test_similarity_search inst w =
     (if \<not> exa_py_installed inst then True
      else
        (case new_exa w (getenv w (U ''EXA_API_KEY'')) of
           Inl e \<Rightarrow> True
         | Inr exa \<Rightarrow>
             (case exa (FindSimilar (PStr (U ''https://example.com'')) (PInt 1)) of
                Inl e \<Rightarrow> True
              | Inr results \<Rightarrow>
                  (case results of
                     [] \<Rightarrow> True
                   | result # _ \<Rightarrow>
                       (case safe_format_score (str_to_float w) (r_score result) of
                          Inl e \<Rightarrow> True
                        | Inr s \<Rightarrow> True)))))"

definition test_additional_functionality :: "installation \<Rightarrow> world \<Rightarrow> bool" where
  "test_additional_functionality inst w =
     (if \<not> exa_py_installed inst then True
      else
        (case new_exa w (getenv w (U ''EXA_API_KEY'')) of
           Inl e \<Rightarrow> True
         | Inr exa \<Rightarrow>
             (case exa (Search (PStr (U ''technology news'')) (PInt 1)
                          (Some (U ''2024-01-01'')) None None) of
                Inl e \<Rightarrow> True
              | Inr results \<Rightarrow>
                  (case exa (Search (PStr (U ''artificial intelligence'')) (PInt 1)
                               None (Some (U ''neural'')) None) of
                     Inl e \<Rightarrow> True
                   | Inr results' \<Rightarrow> True))))"

text \<open>
  The loop of \<open>run_all_tests\<close> over what the test functions gave (a boolean, or an
  exception, which the loop's own \<open>except\<close> clause swallows): the counters \<open>passed\<close>
  and \<open>critical_passed\<close>, the latter for the indices below \<open>critical_tests = 4\<close>.
\<close>

fun run_loop :: "nat \<Rightarrow> (exn + bool) list \<Rightarrow> nat \<Rightarrow> nat \<Rightarrow> nat \<times> nat" where
  "run_loop i [] passed critical_passed = (passed, critical_passed)"
| "run_loop i (t # ts) passed critical_passed =
     (case t of
        Inr success \<Rightarrow>
          if success
          then run_loop (Suc i) ts (Suc passed)
                 (if i < 4 then Suc critical_passed else critical_passed)
          else run_loop (Suc i) ts passed critical_passed
      | Inl e \<Rightarrow> run_loop (Suc i) ts passed critical_passed)"

definition run_outcomes :: "(exn + bool) list \<Rightarrow> bool" where
  "run_outcomes outcomes = (case run_loop 0 outcomes 0 0 of (passed, critical_passed) \<Rightarrow> critical_passed = 4)"

definition run_all_tests :: "installation \<Rightarrow> world \<Rightarrow> bool" where
  "run_all_tests inst w =
     run_outcomes
       [Inr (test_environment_setup w), Inr (test_exa_import inst), Inr (test_mcp_import inst),
        Inr (test_exa_api_connection inst w), Inr (test_content_extraction inst w),
        Inr (test_similarity_search inst w), Inr (test_additional_functionality inst w)]"

text \<open>\<open>sys.exit(0 if success else 1)\<close>.\<close>

definition exit_code :: "installation \<Rightarrow> world \<Rightarrow> nat" where
  "exit_code inst w = (if run_all_tests inst w then 0 else 1)"

section \<open>Worlds for the examples\<close>

text \<open>
  A client that raises on every request, one that finds nothing, and one that always
  answers with the given results.
\<close>

definition failing_client :: "exn \<Rightarrow> client" where
  "failing_client e = (\<lambda>req. Inl e)"

definition answering_client :: "result_item list \<Rightarrow> client" where
  "answering_client results = (\<lambda>req. Inr results)"

text \<open>
  A world on 2026-11-04 (ordinal 739924) at 13:05:06, with the given value of
  \<open>EXA_API_KEY\<close> and no other variable, whose constructor returns the given client, and
  whose float parser accepts no string.
\<close>

definition example_world :: "ustr option \<Rightarrow> client \<Rightarrow> world" where
  "example_world key c =
     \<lparr> getenv = (\<lambda>k. if k = U ''EXA_API_KEY'' then key else None),
       now = \<lparr> dt_ordinal = 739924, dt_seconds = 47106, dt_microseconds = 7 \<rparr>,
       new_exa = (\<lambda>k. Inr c),
       str_to_float = (\<lambda>s. None),
       pads_year = True \<rparr>"

section \<open>Properties\<close>

subsection \<open>Facts about the text helpers\<close>

lemma hd_U_append: "hd (U (c # s) @ t) = of_char c"
  by (simp add: U_def)

lemma not_prefix_unknown_tool: "hd t \<noteq> 85 \<Longrightarrow> \<not> prefix (U ''Unknown tool: '') t"
  by (cases t) (auto simp: U_def)

subsection \<open>The dispatcher without a credential\<close>

lemma get_exa_client_absent:
  "getenv w (U ''EXA_API_KEY'') = None \<or> getenv w (U ''EXA_API_KEY'') = Some [] \<Longrightarrow>
   get_exa_client w = Inl (Exn ValueError
     (U ''EXA_API_KEY environment variable is required. Get your key from https://exa.ai/''))"
  by (auto simp: get_exa_client_def)

lemma remediation_in_message:
  "sublist (U ''Get your key from https://exa.ai/'')
     (U ''Configuration Error: '' @
      U ''EXA_API_KEY environment variable is required. Get your key from https://exa.ai/'')"
  by code_simp

text \<open>
  C2. Without the variable \<open>EXA_API_KEY\<close>, \<open>handle_call_tool\<close> returns, for every tool
  name and every argument mapping, the one text block \<open>Configuration Error: ...\<close>, whose
  text says where to get the key, and sends no request to the collaborator. The function
  returns a value in every case: no exception reaches the caller.
\<close>

theorem missing_credential_configuration_error:
  assumes "getenv w (U ''EXA_API_KEY'') = None"
  shows "handle_call_tool w name arguments =
           ([TextContent (U ''Configuration Error: '' @
               U ''EXA_API_KEY environment variable is required. Get your key from https://exa.ai/'')],
            []) \<and>
         sublist (U ''Get your key from https://exa.ai/'')
           (content_text (hd (fst (handle_call_tool w name arguments))))"
proof -
  have client: "get_exa_client w = Inl (Exn ValueError
      (U ''EXA_API_KEY environment variable is required. Get your key from https://exa.ai/''))"
    using assms by (simp add: get_exa_client_absent)
  have response: "handle_call_tool w name arguments =
      ([TextContent (U ''Configuration Error: '' @
          U ''EXA_API_KEY environment variable is required. Get your key from https://exa.ai/'')],
       [])"
    by (simp add: handle_call_tool_def client handle_exception_def)
  show ?thesis
    by (simp only: response fst_conv list.sel content_text.simps remediation_in_message simp_thms)
qed

theorem missing_credential_configuration_error_witness:
  "getenv (example_world None (answering_client [])) (U ''EXA_API_KEY'') = None \<and>
   handle_call_tool (example_world None (answering_client [])) (U ''search_web_semantic'')
       [U ''query'' \<mapsto> PStr (U ''owls'')] =
     ([TextContent (U ''Configuration Error: '' @
         U ''EXA_API_KEY environment variable is required. Get your key from https://exa.ai/'')],
      [])"
proof -
  have absent: "getenv (example_world None (answering_client [])) (U ''EXA_API_KEY'') = None"
    by (simp add: example_world_def)
  show ?thesis
    using absent missing_credential_configuration_error [OF absent] by simp
qed

end
